theory Spec2Isabelle
  imports Complex_Main
begin

section \<open>The training script \<^verbatim>\<open>trainer.py\<close> as a trace-producing state machine\<close>

text \<open>
  \<^verbatim>\<open>trainer.py\<close> is a linear script: it parses the arguments, selects a dataset and a
  criterion, builds the optimizer and runs the epoch/batch loop. Everything it does is a
  call into an imported module (torch, the dataset, the model, the loss), so the embedding
  records each such call as an event, in program order, and keeps the script's own
  variables (\<^verbatim>\<open>args\<close>, \<^verbatim>\<open>counter\<close>, \<^verbatim>\<open>loss\<close>) in an explicit state.
  An exception stops the script; the outcome then carries the state reached.

  What the imported modules return is a parameter of the model: the length of the dataset,
  the batches the loader yields in each epoch and, for each batch, the top-1 indices of the
  scores, the targets and the loss value the criterion returns. Calls into the imported
  modules are taken to return normally.
\<close>

subsection \<open>Configuration\<close>

text \<open>
  An attribute of the \<^verbatim>\<open>argparse\<close> namespace is absent (the parser never defined it),
  \<^verbatim>\<open>None\<close>, or an integer. Only \<^verbatim>\<open>num_spkr\<close> needs the distinction: the script assigns
  it in one mode and only reads it in the other.
\<close>

datatype attr = Absent | PyNone | IntVal int

text \<open>
  The attributes of \<^verbatim>\<open>args\<close> the script reads. \<^verbatim>\<open>args.m\<close> and \<^verbatim>\<open>args.s\<close> are the
  fields \<open>m_arg\<close> and \<open>s_arg\<close>.
\<close>

record config =
  criterion_type :: string
  criterion :: string
  csv_path :: string
  win_length :: int
  hop_length :: int
  num_frames :: int
  spk_samples :: int
  batch_size :: int
  num_workers :: int
  model_path :: "string option"
  logdir :: string
  repr_dim :: int
  num_spkr :: attr
  m_arg :: rat
  s_arg :: rat
  init_m :: rat
  init_s :: rat
  lr :: rat
  criterion_lr :: rat
  num_epochs :: int
  save_model :: bool

subsection \<open>What the imported modules return\<close>

text \<open>
  The targets of a batch of \<open>B\<close> samples: a tensor of shape \<open>(B,)\<close>, which is what the
  loader's default collation makes of integer labels, or a column of shape \<open>(B, 1)\<close>.
\<close>

datatype label_tensor = Labels "int list" | LabelsCol "int list"

text \<open>
  One batch as the loop sees it: \<open>items\<close> are the indices in the dataset of the
  samples the loader put into the batch, \<open>preds\<close> is \<^verbatim>\<open>scores.topk(1, dim=1)[1]\<close>, a column of
  shape \<open>(B, 1)\<close> with one index per row of \<^verbatim>\<open>y\<close> (so \<^verbatim>\<open>y.size(0)\<close> is its length),
  \<open>target\<close> the targets and \<open>loss_val\<close> the loss the criterion returns.
\<close>

record batch =
  items :: "nat list"
  preds :: "int list"
  target :: label_tensor
  loss_val :: rat

record env =
  ds_len :: nat
  dl :: "nat \<Rightarrow> batch list"

subsection \<open>Events, errors, state\<close>

datatype dataset =
    ClassificationVCDS string int int int
  | MetricLearningVCDS string int int int int

datatype crit =
    CosFace int attr rat rat
  | PSGE2E int attr rat rat
  | Prototypical int attr

datatype component = Model | Criterion | Optimizer

datatype event =
    ConstructDataset dataset
  | ConstructLoader int bool int
  | ConstructTransform
  | ConstructModel
  | LoadState component string
  | OpenLog string
  | ConstructCriterion crit
  | ConstructOptimizer rat rat
  | PrintEpoch nat
  | ToDeviceX "nat list"
  | FeatureExtract
  | ToDeviceTarget
  | Forward
  | ComputeLoss
  | LogScalar string rat nat
  | ZeroGrad
  | Backward
  | OptimizerStep
  | SaveState component string

datatype error =
    ValueError string
  | NameError string
  | AttributeError string
  | ZeroDivisionError
  | RuntimeError

text \<open>
  The script's variables: \<open>loss\<close> is \<open>None\<close> while the name \<^verbatim>\<open>loss\<close> is unbound.
\<close>

record state =
  args :: config
  events :: "event list"
  counter :: nat
  loss :: "rat option"

datatype outcome = Finished state | Raised error state

fun state_of :: "outcome \<Rightarrow> state" where
  "state_of (Finished st) = st"
| "state_of (Raised err st) = st"

definition emit :: "event \<Rightarrow> state \<Rightarrow> state" where
  "emit ev st = st\<lparr>events := events st @ [ev]\<rparr>"

definition init_state :: "config \<Rightarrow> state" where
  "init_state cfg = \<lparr>args = cfg, events = [], counter = 0, loss = None\<rparr>"

subsection \<open>Startup (lines 28--88)\<close>

definition select_dataset :: "env \<Rightarrow> state \<Rightarrow> outcome" where
  "select_dataset en st =
     (let a = args st in
      if criterion_type a = ''classification'' then
        Finished
          ((emit (ConstructDataset
              (ClassificationVCDS (csv_path a) (win_length a) (hop_length a) (num_frames a))) st)
           \<lparr>args := a\<lparr>num_spkr := IntVal (int (ds_len en))\<rparr>\<rparr>)
      else if criterion_type a = ''metriclearning'' then
        Finished
          (emit (ConstructDataset
              (MetricLearningVCDS (csv_path a) (win_length a) (hop_length a) (num_frames a)
                 (spk_samples a))) st)
      else Raised (ValueError ''args.criterion-type: no valid criterion type'') st)"

text \<open>
  Lines 47--69: loader (over the dataset, with \<^verbatim>\<open>shuffle=True\<close>), feature extractor,
  model, optional resume, log writer. The resume
  test \<^verbatim>\<open>if args.model_path\<close> is false for \<^verbatim>\<open>None\<close> and for the empty string.
\<close>

definition build_model :: "state \<Rightarrow> state" where
  "build_model st =
     (let a = args st;
          s1 = emit (ConstructLoader (batch_size a) True (num_workers a)) st;
          s2 = emit ConstructTransform s1;
          s3 = emit ConstructModel s2;
          s4 = (case model_path a of
                  None \<Rightarrow> s3
                | Some p \<Rightarrow> if p \<noteq> [] then emit (LoadState Model p) s3 else s3)
      in emit (OpenLog (logdir a)) s4)"

text \<open>
  Lines 72--79. Reading \<^verbatim>\<open>args.num_spkr\<close> raises when the attribute is absent; the read
  happens only in the three branches that construct a criterion.
\<close>

definition select_criterion :: "state \<Rightarrow> outcome" where
  "select_criterion st =
     (let a = args st in
      if criterion a = ''cosface'' then
        (if num_spkr a = Absent then Raised (AttributeError ''num_spkr'') st
         else Finished (emit (ConstructCriterion
                (CosFace (repr_dim a) (num_spkr a) (m_arg a) (s_arg a))) st))
      else if criterion a = ''psge2e'' then
        (if num_spkr a = Absent then Raised (AttributeError ''num_spkr'') st
         else Finished (emit (ConstructCriterion
                (PSGE2E (repr_dim a) (num_spkr a) (init_m a) (init_s a))) st))
      else if criterion a = ''prototypical'' then
        (if num_spkr a = Absent then Raised (AttributeError ''num_spkr'') st
         else Finished (emit (ConstructCriterion
                (Prototypical (repr_dim a) (num_spkr a))) st))
      else Raised (ValueError ''args.criterion: no valid criterion function'') st)"

definition build_optimizer :: "state \<Rightarrow> state" where
  "build_optimizer st =
     emit (ConstructOptimizer (lr (args st)) (criterion_lr (args st))) st"

definition startup :: "env \<Rightarrow> config \<Rightarrow> outcome" where
  "startup en cfg =
     (case select_dataset en (init_state cfg) of
        Raised err st \<Rightarrow> Raised err st
      | Finished s1 \<Rightarrow>
          (case select_criterion (build_model s1) of
             Raised err st \<Rightarrow> Raised err st
           | Finished s2 \<Rightarrow> Finished (build_optimizer s2)))"

subsection \<open>Accuracy (lines 105--108)\<close>

text \<open>
  \<^verbatim>\<open>(preds == target).sum().item()\<close>. \<open>preds\<close> has shape \<open>(B, 1)\<close>. Against a target of
  shape \<open>(B',)\<close> the comparison broadcasts to \<open>(B, B')\<close>, one entry for every pair of a
  prediction and a target. Against a column \<open>(B', 1)\<close> it is elementwise when the
  lengths agree, broadcasts when one of them is 1, and fails otherwise.
\<close>

definition count_eq :: "int list \<Rightarrow> label_tensor \<Rightarrow> error + nat" where
  "count_eq ps t =
     (case t of
        Labels ts \<Rightarrow> Inr (length (filter (\<lambda>(p, q). p = q) (List.product ps ts)))
      | LabelsCol ts \<Rightarrow>
          (if length ps = length ts then Inr (length (filter (\<lambda>(p, q). p = q) (zip ps ts)))
           else if length ts = 1 \<or> length ps = 1
             then Inr (length (filter (\<lambda>(p, q). p = q) (List.product ps ts)))
           else Inl RuntimeError))"

text \<open>The count divided by \<^verbatim>\<open>y.size(0)\<close>; Python's \<^verbatim>\<open>/\<close> raises on a zero divisor.\<close>

definition accuracy :: "batch \<Rightarrow> error + rat" where
  "accuracy b =
     (case count_eq (preds b) (target b) of
        Inl err \<Rightarrow> Inl err
      | Inr c \<Rightarrow>
          (if length (preds b) = 0 then Inl ZeroDivisionError
           else Inr (of_nat c / of_nat (length (preds b)))))"

subsection \<open>The training loop (lines 91--137)\<close>

text \<open>Lines 115--122, from \<^verbatim>\<open>optimizer.zero_grad()\<close> to \<^verbatim>\<open>counter += 1\<close>.\<close>

definition update_weights :: "state \<Rightarrow> outcome" where
  "update_weights st =
     (let s1 = emit ZeroGrad st in
      case loss s1 of
        None \<Rightarrow> Raised (NameError ''loss'') s1
      | Some l \<Rightarrow>
          (let s2 = emit Backward s1;
               s3 = emit OptimizerStep s2;
               s4 = emit (LogScalar ''loss'' l (counter s3)) s3
           in Finished (s4\<lparr>counter := counter s4 + 1\<rparr>)))"

text \<open>Lines 95--122, the body of the inner loop.\<close>

definition train_batch :: "batch \<Rightarrow> state \<Rightarrow> outcome" where
  "train_batch b st =
     (let s1 = emit (ToDeviceX (items b)) st;
          s2 = emit FeatureExtract s1;
          s3 = emit ToDeviceTarget s2;
          s4 = emit Forward s3
      in if criterion_type (args s4) = ''classification'' then
           (let s5 = (emit ComputeLoss s4)\<lparr>loss := Some (loss_val b)\<rparr> in
            case accuracy b of
              Inl err \<Rightarrow> Raised err s5
            | Inr acc \<Rightarrow> update_weights (emit (LogScalar ''acc'' acc (counter s5)) s5))
         else if criterion_type (args s4) = ''metriclearning'' then update_weights s4
         else update_weights s4)"

fun run_batches :: "batch list \<Rightarrow> state \<Rightarrow> outcome" where
  "run_batches [] st = Finished st"
| "run_batches (b # bs) st =
     (case train_batch b st of
        Raised err st' \<Rightarrow> Raised err st'
      | Finished st' \<Rightarrow> run_batches bs st')"

text \<open>
  \<^verbatim>\<open>f'{e+1:02d}'\<close>: the decimal digits of a non-negative integer, padded on the left
  with zeros to two characters.
\<close>

fun digits :: "nat \<Rightarrow> string" where
  "digits n =
     (if n < 10 then [''0123456789'' ! n]
      else digits (n div 10) @ [''0123456789'' ! (n mod 10)])"

declare digits.simps [simp del]

definition fmt02d :: "nat \<Rightarrow> string" where
  "fmt02d n = replicate (2 - length (digits n)) (CHR ''0'') @ digits n"

text \<open>Lines 124--137.\<close>

definition save_checkpoint :: "nat \<Rightarrow> state \<Rightarrow> state" where
  "save_checkpoint e st =
     (if save_model (args st) then
        (let s1 = emit (SaveState Model (''models/model_'' @ fmt02d (e + 1) @ ''.pt'')) st;
             s2 = emit (SaveState Criterion (''models/crit_'' @ fmt02d (e + 1) @ ''.pt'')) s1
         in emit (SaveState Optimizer (''models/optim_'' @ fmt02d (e + 1) @ ''.pt'')) s2)
      else st)"

definition train_epoch :: "env \<Rightarrow> nat \<Rightarrow> state \<Rightarrow> outcome" where
  "train_epoch en e st =
     (case run_batches (dl en e) (emit (PrintEpoch (e + 1)) st) of
        Raised err st' \<Rightarrow> Raised err st'
      | Finished st' \<Rightarrow> Finished (save_checkpoint e st'))"

fun run_epochs :: "env \<Rightarrow> nat list \<Rightarrow> state \<Rightarrow> outcome" where
  "run_epochs en [] st = Finished st"
| "run_epochs en (e # es) st =
     (case train_epoch en e st of
        Raised err st' \<Rightarrow> Raised err st'
      | Finished st' \<Rightarrow> run_epochs en es st')"

text \<open>The whole script; \<^verbatim>\<open>range(n)\<close> is empty for \<open>n \<le> 0\<close>.\<close>

definition main :: "env \<Rightarrow> config \<Rightarrow> outcome" where
  "main en cfg =
     (case startup en cfg of
        Raised err st \<Rightarrow> Raised err st
      | Finished st \<Rightarrow> run_epochs en [0..<nat (num_epochs (args st))] st)"

subsection \<open>Reading a trace\<close>

text \<open>The step indices logged under a scalar name, in the order they were logged.\<close>

fun step_of :: "string \<Rightarrow> event \<Rightarrow> nat list" where
  "step_of n (LogScalar nm v k) = (if nm = n then [k] else [])"
| "step_of n _ = []"

definition steps_of :: "string \<Rightarrow> event list \<Rightarrow> nat list" where
  "steps_of n evs = concat (map (step_of n) evs)"

text \<open>The files written by \<^verbatim>\<open>torch.save\<close> and read by \<^verbatim>\<open>torch.load\<close>, in order.\<close>

fun save_of :: "event \<Rightarrow> (component \<times> string) list" where
  "save_of (SaveState c p) = [(c, p)]"
| "save_of _ = []"

definition saved :: "event list \<Rightarrow> (component \<times> string) list" where
  "saved evs = concat (map save_of evs)"

fun load_of :: "event \<Rightarrow> (component \<times> string) list" where
  "load_of (LoadState c p) = [(c, p)]"
| "load_of _ = []"

definition loads :: "event list \<Rightarrow> (component \<times> string) list" where
  "loads evs = concat (map load_of evs)"

text \<open>The speaker count each constructed criterion received.\<close>

fun crit_num_spkr :: "crit \<Rightarrow> attr" where
  "crit_num_spkr (CosFace d n m0 s0) = n"
| "crit_num_spkr (PSGE2E d n m0 s0) = n"
| "crit_num_spkr (Prototypical d n) = n"

fun crit_of :: "event \<Rightarrow> attr list" where
  "crit_of (ConstructCriterion c) = [crit_num_spkr c]"
| "crit_of _ = []"

definition crit_spkrs :: "event list \<Rightarrow> attr list" where
  "crit_spkrs evs = concat (map crit_of evs)"

text \<open>The events of a training step proper: forward pass, backward pass, optimizer step.\<close>

fun is_training_step :: "event \<Rightarrow> bool" where
  "is_training_step Forward = True"
| "is_training_step Backward = True"
| "is_training_step OptimizerStep = True"
| "is_training_step ZeroGrad = True"
| "is_training_step ComputeLoss = True"
| "is_training_step _ = False"

text \<open>The events the script emits before the loop.\<close>

fun is_startup_event :: "event \<Rightarrow> bool" where
  "is_startup_event (ConstructDataset d) = True"
| "is_startup_event (ConstructLoader b sh w) = True"
| "is_startup_event ConstructTransform = True"
| "is_startup_event ConstructModel = True"
| "is_startup_event (LoadState c p) = True"
| "is_startup_event (OpenLog d) = True"
| "is_startup_event (ConstructCriterion c) = True"
| "is_startup_event (ConstructOptimizer a b) = True"
| "is_startup_event _ = False"


text \<open>
  The logged steps are consecutive: the loss has been logged for the steps below the
  counter, and so has the accuracy in classification mode (it is never logged otherwise).
\<close>

definition steps_ok :: "state \<Rightarrow> bool" where
  "steps_ok st =
     (steps_of ''loss'' (events st) = [0..<counter st] \<and>
      steps_of ''acc'' (events st) =
        (if criterion_type (args st) = ''classification'' then [0..<counter st] else []))"

subsection \<open>The trace of a classification run, written out\<close>

text \<open>
  The events of one batch in classification mode, in the order of lines 95--121, for the
  step index \<open>k\<close> and the logged accuracy \<open>acc\<close>.
\<close>

definition batch_trace :: "nat \<Rightarrow> rat \<Rightarrow> batch \<Rightarrow> event list" where
  "batch_trace k acc b =
     [ToDeviceX (items b), FeatureExtract, ToDeviceTarget, Forward, ComputeLoss,
      LogScalar ''acc'' acc k, ZeroGrad, Backward, OptimizerStep,
      LogScalar ''loss'' (loss_val b) k]"

definition acc_of :: "batch \<Rightarrow> rat" where
  "acc_of b = (case accuracy b of Inl err \<Rightarrow> 0 | Inr a \<Rightarrow> a)"


definition checkpoint_files :: "nat \<Rightarrow> (component \<times> string) list" where
  "checkpoint_files e =
     [(Model, ''models/model_'' @ fmt02d (e + 1) @ ''.pt''),
      (Criterion, ''models/crit_'' @ fmt02d (e + 1) @ ''.pt''),
      (Optimizer, ''models/optim_'' @ fmt02d (e + 1) @ ''.pt'')]"

definition checkpoint_trace :: "bool \<Rightarrow> nat \<Rightarrow> event list" where
  "checkpoint_trace sv e =
     (if sv then map (\<lambda>(c, p). SaveState c p) (checkpoint_files e) else [])"


definition total_batches :: "env \<Rightarrow> nat list \<Rightarrow> nat" where
  "total_batches en es = sum_list (map (\<lambda>e. length (dl en e)) es)"

subsection \<open>Batches the loader yields\<close>



subsection \<open>Reading the epochs of a trace\<close>

text \<open>The values logged under \<^verbatim>\<open>acc\<close>, in order.\<close>

fun acc_logged :: "event \<Rightarrow> rat list" where
  "acc_logged (LogScalar nm v k) = (if nm = ''acc'' then [v] else [])"
| "acc_logged _ = []"

definition acc_values :: "event list \<Rightarrow> rat list" where
  "acc_values evs = concat (map acc_logged evs)"


text \<open>The batches moved to the device, each as the list of its dataset indices.\<close>

fun moved_of :: "event \<Rightarrow> nat list list" where
  "moved_of (ToDeviceX its) = [its]"
| "moved_of _ = []"

definition batches_moved :: "event list \<Rightarrow> nat list list" where
  "batches_moved evs = concat (map moved_of evs)"


text \<open>
  The skeleton of a trace: where an epoch starts, where a batch is completed (its loss
  is logged, the last thing the loop body does before incrementing the counter) and
  where a file is saved.
\<close>

datatype mark = EpochStart nat | BatchDone nat | Saved component string

fun mark_of :: "event \<Rightarrow> mark list" where
  "mark_of (PrintEpoch n) = [EpochStart n]"
| "mark_of (LogScalar nm v k) = (if nm = ''loss'' then [BatchDone k] else [])"
| "mark_of (SaveState c p) = [Saved c p]"
| "mark_of _ = []"

definition marks :: "event list \<Rightarrow> mark list" where
  "marks evs = concat (map mark_of evs)"

text \<open>
  The skeleton of the epochs \<open>es\<close> run to completion from step \<open>k\<close>: each epoch is its
  header, one completed batch per batch of the loader under consecutive steps, and then,
  when saving is on, its three checkpoint files.
\<close>

fun epochs_marks :: "env \<Rightarrow> bool \<Rightarrow> nat \<Rightarrow> nat list \<Rightarrow> mark list" where
  "epochs_marks en sv k [] = []"
| "epochs_marks en sv k (e # es) =
     EpochStart (e + 1) # map BatchDone [k..<k + length (dl en e)]
       @ (if sv then map (\<lambda>(c, p). Saved c p) (checkpoint_files e) else [])
       @ epochs_marks en sv (k + length (dl en e)) es"

subsection \<open>Concrete runs\<close>

definition base_cfg :: config where
  "base_cfg =
     \<lparr>criterion_type = ''classification'', criterion = ''cosface'',
      csv_path = ''train.csv'', win_length = 400, hop_length = 160, num_frames = 200,
      spk_samples = 2, batch_size = 2, num_workers = 0, model_path = Some ''ckpt.pt'',
      logdir = ''runs'', repr_dim = 8, num_spkr = IntVal 5, m_arg = 1 / 5, s_arg = 30,
      init_m = 0, init_s = 10, lr = 1 / 1000, criterion_lr = 1 / 1000, num_epochs = 2,
      save_model = True\<rparr>"

definition one_batch :: batch where
  "one_batch = \<lparr>items = [0], preds = [1], target = Labels [1], loss_val = 1 / 2\<rparr>"

text \<open>Two samples of speaker 0, both predicted as speaker 0.\<close>

definition hit_batch :: batch where
  "hit_batch = \<lparr>items = [0, 1], preds = [0, 0], target = Labels [0, 0], loss_val = 3\<rparr>"

definition small_env :: env where
  "small_env = \<lparr>ds_len = 3, dl = (\<lambda>e. [one_batch])\<rparr>"

text \<open>
  A dataset of three items in batches of two, shuffled differently in the two epochs.
\<close>

definition shuffled_env :: env where
  "shuffled_env =
     \<lparr>ds_len = 3,
      dl = (\<lambda>e. if e = 0
            then [\<lparr>items = [2, 0], preds = [2, 1], target = Labels [2, 0], loss_val = 3\<rparr>,
                  \<lparr>items = [1], preds = [1], target = Labels [1], loss_val = 2\<rparr>]
            else [\<lparr>items = [1, 2], preds = [1, 2], target = Labels [1, 2], loss_val = 1\<rparr>,
                  \<lparr>items = [0], preds = [2], target = Labels [0], loss_val = 1 / 2\<rparr>])\<rparr>"

definition ml_cfg :: config where
  "ml_cfg = base_cfg\<lparr>criterion_type := ''metriclearning'', criterion := ''prototypical''\<rparr>"

definition bad_type_cfg :: config where
  "bad_type_cfg = base_cfg\<lparr>criterion_type := ''triplet''\<rparr>"

definition bad_crit_cfg :: config where
  "bad_crit_cfg = base_cfg\<lparr>criterion := ''softmax''\<rparr>"

section \<open>Properties of the embedding\<close>

subsection \<open>Events and projections\<close>

lemma events_emit [simp]: "events (emit ev st) = events st @ [ev]"
  by (simp add: emit_def)

lemma args_emit [simp]: "args (emit ev st) = args st"
  by (simp add: emit_def)

lemma counter_emit [simp]: "counter (emit ev st) = counter st"
  by (simp add: emit_def)

lemma loss_emit [simp]: "loss (emit ev st) = loss st"
  by (simp add: emit_def)

lemma steps_of_simps [simp]:
  "steps_of n [] = []"
  "steps_of n (ev # evs) = step_of n ev @ steps_of n evs"
  "steps_of n (xs @ ys) = steps_of n xs @ steps_of n ys"
  by (simp_all add: steps_of_def)

lemma saved_simps [simp]:
  "saved [] = []"
  "saved (ev # evs) = save_of ev @ saved evs"
  "saved (xs @ ys) = saved xs @ saved ys"
  by (simp_all add: saved_def)

subsection \<open>One batch\<close>

lemma update_weights_Finished:
  assumes "update_weights st = Finished st'"
  shows "\<exists>l. loss st = Some l \<and>
           events st' = events st @ [ZeroGrad, Backward, OptimizerStep,
                                     LogScalar ''loss'' l (counter st)] \<and>
           counter st' = counter st + 1 \<and> args st' = args st \<and> loss st' = loss st"
  using assms by (auto simp: update_weights_def Let_def split: option.splits)

lemma update_weights_Raised:
  assumes "update_weights st = Raised err st'"
  shows "loss st = None \<and> err = NameError ''loss'' \<and> events st' = events st @ [ZeroGrad] \<and>
           counter st' = counter st \<and> args st' = args st \<and> loss st' = loss st"
  using assms by (auto simp: update_weights_def Let_def split: option.splits)

lemma train_batch_Finished_cls:
  assumes "train_batch b st = Finished st'" "criterion_type (args st) = ''classification''"
  shows "accuracy b = Inr (acc_of b) \<and>
         events st' = events st @ batch_trace (counter st) (acc_of b) b \<and>
         counter st' = counter st + 1 \<and> args st' = args st \<and> loss st' = Some (loss_val b)"
  using assms
  by (auto simp: train_batch_def Let_def batch_trace_def acc_of_def
           split: sum.splits dest!: update_weights_Finished)

lemma train_batch_Raised_cls:
  assumes "train_batch b st = Raised err st'" "criterion_type (args st) = ''classification''"
  shows "accuracy b = Inl err \<and>
         events st' = events st @ [ToDeviceX (items b), FeatureExtract, ToDeviceTarget, Forward, ComputeLoss] \<and>
         counter st' = counter st \<and> args st' = args st"
  using assms
  by (auto simp: train_batch_def Let_def split: sum.splits dest!: update_weights_Raised)

lemma train_batch_Finished_other:
  assumes "train_batch b st = Finished st'" "criterion_type (args st) \<noteq> ''classification''"
  shows "\<exists>l. loss st = Some l \<and>
         events st' = events st @ [ToDeviceX (items b), FeatureExtract, ToDeviceTarget, Forward,
            ZeroGrad, Backward, OptimizerStep, LogScalar ''loss'' l (counter st)] \<and>
         counter st' = counter st + 1 \<and> args st' = args st \<and> loss st' = loss st"
  using assms
  by (auto simp: train_batch_def Let_def split: if_splits dest!: update_weights_Finished)

lemma train_batch_Raised_other:
  assumes "train_batch b st = Raised err st'" "criterion_type (args st) \<noteq> ''classification''"
  shows "loss st = None \<and> err = NameError ''loss'' \<and>
         events st' = events st @ [ToDeviceX (items b), FeatureExtract, ToDeviceTarget, Forward, ZeroGrad] \<and>
         counter st' = counter st \<and> args st' = args st"
  using assms
  by (auto simp: train_batch_def Let_def split: if_splits dest!: update_weights_Raised)

text \<open>Every outcome of a batch, as one of four shapes.\<close>

lemma train_batch_shape:
  "\<exists>evs. events (state_of (train_batch b st)) = events st @ evs \<and>
         args (state_of (train_batch b st)) = args st \<and>
         list_all (\<lambda>ev. \<not> is_startup_event ev) evs \<and> saved evs = []"
proof (cases "train_batch b st")
  case (Finished st')
  show ?thesis
  proof (cases "criterion_type (args st) = ''classification''")
    case True
    from train_batch_Finished_cls [OF Finished True] show ?thesis
      using Finished by (simp add: batch_trace_def)
  next
    case False
    from train_batch_Finished_other [OF Finished False] show ?thesis
      using Finished by auto
  qed
next
  case (Raised err st')
  show ?thesis
  proof (cases "criterion_type (args st) = ''classification''")
    case True
    from train_batch_Raised_cls [OF Raised True] show ?thesis
      using Raised by simp
  next
    case False
    from train_batch_Raised_other [OF Raised False] show ?thesis
      using Raised by simp
  qed
qed

lemma train_batch_steps_ok:
  assumes ok: "steps_ok st"
  shows "steps_ok (state_of (train_batch b st))"
proof (cases "train_batch b st")
  case (Finished st')
  show ?thesis
  proof (cases "criterion_type (args st) = ''classification''")
    case True
    from train_batch_Finished_cls [OF Finished True] ok show ?thesis
      using Finished True by (simp add: batch_trace_def steps_ok_def)
  next
    case False
    from train_batch_Finished_other [OF Finished False] ok show ?thesis
      using Finished False by (auto simp: steps_ok_def)
  qed
next
  case (Raised err st')
  show ?thesis
  proof (cases "criterion_type (args st) = ''classification''")
    case True
    from train_batch_Raised_cls [OF Raised True] ok show ?thesis
      using Raised True by (simp add: steps_ok_def)
  next
    case False
    from train_batch_Raised_other [OF Raised False] ok show ?thesis
      using Raised False by (simp add: steps_ok_def)
  qed
qed

lemma train_batch_counter:
  assumes "train_batch b st = Finished st'"
  shows "counter st' = counter st + 1"
proof (cases "criterion_type (args st) = ''classification''")
  case True
  from train_batch_Finished_cls [OF assms True] show ?thesis by simp
next
  case False
  from train_batch_Finished_other [OF assms False] show ?thesis by auto
qed

subsection \<open>All batches of an epoch\<close>

lemma run_batches_shape:
  "\<exists>evs. events (state_of (run_batches bs st)) = events st @ evs \<and>
         args (state_of (run_batches bs st)) = args st \<and>
         list_all (\<lambda>ev. \<not> is_startup_event ev) evs \<and> saved evs = []"
proof (induction bs arbitrary: st)
  case Nil
  then show ?case by simp
next
  case (Cons b bs)
  obtain e1 where e1: "events (state_of (train_batch b st)) = events st @ e1"
      "args (state_of (train_batch b st)) = args st"
      "list_all (\<lambda>ev. \<not> is_startup_event ev) e1" "saved e1 = []"
    using train_batch_shape by blast
  show ?case
  proof (cases "train_batch b st")
    case (Raised err st')
    with e1 show ?thesis by simp
  next
    case (Finished st')
    obtain e2 where e2: "events (state_of (run_batches bs st')) = events st' @ e2"
      "args (state_of (run_batches bs st')) = args st'"
      "list_all (\<lambda>ev. \<not> is_startup_event ev) e2" "saved e2 = []"
      using Cons.IH by blast
    from e1 e2 Finished show ?thesis by simp
  qed
qed

lemma run_batches_steps_ok:
  "steps_ok st \<Longrightarrow> steps_ok (state_of (run_batches bs st))"
proof (induction bs arbitrary: st)
  case Nil
  then show ?case by simp
next
  case (Cons b bs)
  from Cons.prems have ok: "steps_ok (state_of (train_batch b st))"
    by (rule train_batch_steps_ok)
  show ?case
  proof (cases "train_batch b st")
    case (Raised err st')
    with ok show ?thesis by simp
  next
    case (Finished st')
    with ok Cons.IH [of st'] show ?thesis by simp
  qed
qed

lemma run_batches_counter:
  "run_batches bs st = Finished st' \<Longrightarrow> counter st' = counter st + length bs"
proof (induction bs arbitrary: st)
  case Nil
  then show ?case by simp
next
  case (Cons b bs)
  then show ?case
    by (auto split: outcome.splits dest!: train_batch_counter)
qed


subsection \<open>One epoch\<close>

lemma save_checkpoint_simps [simp]:
  "events (save_checkpoint e st) = events st @ checkpoint_trace (save_model (args st)) e"
  "args (save_checkpoint e st) = args st"
  "counter (save_checkpoint e st) = counter st"
  by (simp_all add: save_checkpoint_def checkpoint_trace_def checkpoint_files_def Let_def)

lemma checkpoint_trace_props:
  "list_all (\<lambda>ev. \<not> is_startup_event ev) (checkpoint_trace sv e)"
  "saved (checkpoint_trace sv e) = (if sv then checkpoint_files e else [])"
  "steps_of n (checkpoint_trace sv e) = []"
  by (simp_all add: checkpoint_trace_def checkpoint_files_def)

lemma train_epoch_shape:
  "\<exists>evs. events (state_of (train_epoch en e st)) = events st @ evs \<and>
         args (state_of (train_epoch en e st)) = args st \<and>
         list_all (\<lambda>ev. \<not> is_startup_event ev) evs \<and>
         (\<not> save_model (args st) \<longrightarrow> saved evs = [])"
proof -
  let ?s0 = "emit (PrintEpoch (e + 1)) st"
  obtain e1 where e1: "events (state_of (run_batches (dl en e) ?s0)) = events ?s0 @ e1"
      "args (state_of (run_batches (dl en e) ?s0)) = args ?s0"
      "list_all (\<lambda>ev. \<not> is_startup_event ev) e1" "saved e1 = []"
    using run_batches_shape by blast
  show ?thesis
  proof (cases "run_batches (dl en e) ?s0")
    case (Raised err st')
    with e1 show ?thesis by (simp add: train_epoch_def)
  next
    case (Finished st')
    with e1 show ?thesis by (simp add: train_epoch_def checkpoint_trace_props)
  qed
qed

lemma train_epoch_Finished:
  assumes "train_epoch en e st = Finished st'"
  shows "saved (events st') =
           saved (events st) @ (if save_model (args st) then checkpoint_files e else [])"
    and "counter st' = counter st + length (dl en e)"
proof -
  let ?s0 = "emit (PrintEpoch (e + 1)) st"
  from assms obtain s1 where s1: "run_batches (dl en e) ?s0 = Finished s1"
      and st': "st' = save_checkpoint e s1"
    by (auto simp: train_epoch_def split: outcome.splits)
  obtain e1 where e1: "events (state_of (run_batches (dl en e) ?s0)) = events ?s0 @ e1"
      "args (state_of (run_batches (dl en e) ?s0)) = args ?s0" "saved e1 = []"
    using run_batches_shape by blast
  from e1 s1 st' show "saved (events st') =
           saved (events st) @ (if save_model (args st) then checkpoint_files e else [])"
    by (simp add: checkpoint_trace_props)
  from run_batches_counter [OF s1] st' show "counter st' = counter st + length (dl en e)"
    by simp
qed

lemma train_epoch_steps_ok:
  assumes "steps_ok st"
  shows "steps_ok (state_of (train_epoch en e st))"
proof -
  let ?s0 = "emit (PrintEpoch (e + 1)) st"
  from assms have "steps_ok ?s0" by (simp add: steps_ok_def)
  then have ok: "steps_ok (state_of (run_batches (dl en e) ?s0))"
    by (rule run_batches_steps_ok)
  show ?thesis
  proof (cases "run_batches (dl en e) ?s0")
    case (Raised err st')
    with ok show ?thesis by (simp add: train_epoch_def)
  next
    case (Finished st')
    with ok show ?thesis by (simp add: train_epoch_def steps_ok_def checkpoint_trace_props)
  qed
qed


subsection \<open>All epochs\<close>

lemma run_epochs_shape:
  "\<exists>evs. events (state_of (run_epochs en es st)) = events st @ evs \<and>
         args (state_of (run_epochs en es st)) = args st \<and>
         list_all (\<lambda>ev. \<not> is_startup_event ev) evs \<and>
         (\<not> save_model (args st) \<longrightarrow> saved evs = [])"
proof (induction es arbitrary: st)
  case Nil
  then show ?case by simp
next
  case (Cons e es)
  obtain e1 where e1: "events (state_of (train_epoch en e st)) = events st @ e1"
      "args (state_of (train_epoch en e st)) = args st"
      "list_all (\<lambda>ev. \<not> is_startup_event ev) e1"
      "\<not> save_model (args st) \<longrightarrow> saved e1 = []"
    using train_epoch_shape by blast
  show ?case
  proof (cases "train_epoch en e st")
    case (Raised err st')
    with e1 show ?thesis by simp
  next
    case (Finished st')
    obtain e2 where e2: "events (state_of (run_epochs en es st')) = events st' @ e2"
      "args (state_of (run_epochs en es st')) = args st'"
      "list_all (\<lambda>ev. \<not> is_startup_event ev) e2"
      "\<not> save_model (args st') \<longrightarrow> saved e2 = []"
      using Cons.IH by blast
    from e1 e2 Finished show ?thesis by simp
  qed
qed

lemma run_epochs_steps_ok:
  "steps_ok st \<Longrightarrow> steps_ok (state_of (run_epochs en es st))"
proof (induction es arbitrary: st)
  case Nil
  then show ?case by simp
next
  case (Cons e es)
  from Cons.prems have ok: "steps_ok (state_of (train_epoch en e st))"
    by (rule train_epoch_steps_ok)
  show ?case
  proof (cases "train_epoch en e st")
    case (Raised err st')
    with ok show ?thesis by simp
  next
    case (Finished st')
    with ok Cons.IH [of st'] show ?thesis by simp
  qed
qed

lemma run_epochs_Finished:
  "run_epochs en es st = Finished st' \<Longrightarrow>
     counter st' = counter st + total_batches en es \<and>
     saved (events st') =
       saved (events st) @ (if save_model (args st) then concat (map checkpoint_files es) else [])"
proof (induction es arbitrary: st)
  case Nil
  then show ?case by (simp add: total_batches_def)
next
  case (Cons e es)
  from Cons.prems obtain s1 where s1: "train_epoch en e st = Finished s1"
      and rest: "run_epochs en es s1 = Finished st'"
    by (auto split: outcome.splits)
  from train_epoch_shape [of en e st] s1 have a: "args s1 = args st" by auto
  from train_epoch_Finished [OF s1] Cons.IH [OF rest] a show ?case
    by (simp add: total_batches_def)
qed


subsection \<open>Startup\<close>

lemma select_dataset_cases:
  "select_dataset en (init_state cfg) =
     (if criterion_type cfg = ''classification'' then
        Finished \<lparr>args = cfg\<lparr>num_spkr := IntVal (int (ds_len en))\<rparr>,
          events = [ConstructDataset (ClassificationVCDS (csv_path cfg) (win_length cfg)
                      (hop_length cfg) (num_frames cfg))],
          counter = 0, loss = None\<rparr>
      else if criterion_type cfg = ''metriclearning'' then
        Finished \<lparr>args = cfg,
          events = [ConstructDataset (MetricLearningVCDS (csv_path cfg) (win_length cfg)
                      (hop_length cfg) (num_frames cfg) (spk_samples cfg))],
          counter = 0, loss = None\<rparr>
      else Raised (ValueError ''args.criterion-type: no valid criterion type'') (init_state cfg))"
  by (simp add: select_dataset_def init_state_def emit_def Let_def)

lemma build_model_props:
  "args (build_model st) = args st"
  "counter (build_model st) = counter st"
  "loss (build_model st) = loss st"
  "\<exists>evs. events (build_model st) = events st @ evs \<and> list_all is_startup_event evs \<and>
     (\<forall>n. steps_of n evs = []) \<and> saved evs = [] \<and> crit_spkrs evs = [] \<and>
     loads evs = (case model_path (args st) of None \<Rightarrow> []
                  | Some p \<Rightarrow> if p \<noteq> [] then [(Model, p)] else [])"
  by (auto simp: build_model_def Let_def loads_def crit_spkrs_def split: option.splits)

lemma loads_simps [simp]:
  "loads [] = []"
  "loads (ev # evs) = load_of ev @ loads evs"
  "loads (xs @ ys) = loads xs @ loads ys"
  by (simp_all add: loads_def)

lemma crit_spkrs_simps [simp]:
  "crit_spkrs [] = []"
  "crit_spkrs (ev # evs) = crit_of ev @ crit_spkrs evs"
  "crit_spkrs (xs @ ys) = crit_spkrs xs @ crit_spkrs ys"
  by (simp_all add: crit_spkrs_def)

lemma loop_events_silent:
  "list_all (\<lambda>ev. \<not> is_startup_event ev) evs \<Longrightarrow> loads evs = [] \<and> crit_spkrs evs = []"
proof (induction evs)
  case Nil
  then show ?case by simp
next
  case (Cons ev evs)
  then show ?case by (cases ev) simp_all
qed

lemma startup_events_silent:
  "list_all is_startup_event evs \<Longrightarrow>
     steps_of n evs = [] \<and> saved evs = [] \<and> list_all (\<lambda>ev. \<not> is_training_step ev) evs"
proof (induction evs)
  case Nil
  then show ?case by simp
next
  case (Cons ev evs)
  then show ?case by (cases ev) simp_all
qed

lemma select_criterion_props:
  "args (state_of (select_criterion st)) = args st"
  "counter (state_of (select_criterion st)) = counter st"
  "\<exists>evs. events (state_of (select_criterion st)) = events st @ evs \<and>
     list_all is_startup_event evs \<and> loads evs = [] \<and>
     crit_spkrs evs =
       (if criterion (args st) \<in> {''cosface'', ''psge2e'', ''prototypical''} \<and>
           num_spkr (args st) \<noteq> Absent
        then [num_spkr (args st)] else [])"
  by (auto simp: select_criterion_def Let_def)

lemma select_criterion_invalid:
  "criterion (args st) \<notin> {''cosface'', ''psge2e'', ''prototypical''} \<Longrightarrow>
     select_criterion st = Raised (ValueError ''args.criterion: no valid criterion function'') st"
  by (simp add: select_criterion_def Let_def)

lemma select_criterion_absent:
  "criterion (args st) \<in> {''cosface'', ''psge2e'', ''prototypical''} \<Longrightarrow>
   num_spkr (args st) = Absent \<Longrightarrow>
     select_criterion st = Raised (AttributeError ''num_spkr'') st"
  by (auto simp: select_criterion_def Let_def)

lemma select_dataset_Raised:
  assumes "select_dataset en (init_state cfg) = Raised err st"
  shows "st = init_state cfg" "criterion_type cfg \<noteq> ''classification''"
    "criterion_type cfg \<noteq> ''metriclearning''"
    "err = ValueError ''args.criterion-type: no valid criterion type''"
  using assms by (auto simp: select_dataset_cases split: if_splits)

lemma select_dataset_Finished:
  assumes "select_dataset en (init_state cfg) = Finished s1"
  shows "criterion_type cfg = ''classification'' \<or> criterion_type cfg = ''metriclearning''"
    "args s1 = (if criterion_type cfg = ''classification''
                then cfg\<lparr>num_spkr := IntVal (int (ds_len en))\<rparr> else cfg)"
    "counter s1 = 0" "list_all is_startup_event (events s1)"
    "loads (events s1) = []" "crit_spkrs (events s1) = []"
  using assms by (auto simp: select_dataset_cases split: if_splits)

text \<open>The configuration as the script has it once the dataset is selected.\<close>

lemma startup_invalid_type:
  "criterion_type cfg \<noteq> ''classification'' \<Longrightarrow> criterion_type cfg \<noteq> ''metriclearning'' \<Longrightarrow>
     startup en cfg =
       Raised (ValueError ''args.criterion-type: no valid criterion type'') (init_state cfg)"
  by (simp add: startup_def select_dataset_cases)

lemma startup_props:
  "args (state_of (startup en cfg)) =
     (if criterion_type cfg = ''classification''
      then cfg\<lparr>num_spkr := IntVal (int (ds_len en))\<rparr> else cfg)"
  "counter (state_of (startup en cfg)) = 0"
  "list_all is_startup_event (events (state_of (startup en cfg)))"
proof -
  let ?P = "\<lambda>st. args st = (if criterion_type cfg = ''classification''
      then cfg\<lparr>num_spkr := IntVal (int (ds_len en))\<rparr> else cfg) \<and> counter st = 0 \<and>
      list_all is_startup_event (events st)"
  have "?P (state_of (startup en cfg))"
  proof (cases "select_dataset en (init_state cfg)")
    case (Raised err st)
    from select_dataset_Raised [OF this] Raised show ?thesis
      by (simp add: startup_def init_state_def)
  next
    case (Finished s1)
    from select_dataset_Finished [OF this] have s1: "?P s1"
      by simp
    obtain e1 where e1: "events (build_model s1) = events s1 @ e1" "list_all is_startup_event e1"
      using build_model_props(4) by blast
    obtain e2 where e2: "events (state_of (select_criterion (build_model s1))) =
        events (build_model s1) @ e2" "list_all is_startup_event e2"
      using select_criterion_props(3) by blast
    show ?thesis
    proof (cases "select_criterion (build_model s1)")
      case r: (Raised err st)
      with Finished s1 e1 e2 select_criterion_props(1,2) [of "build_model s1"]
      show ?thesis by (simp add: startup_def build_model_props)
    next
      case f: (Finished s2)
      with Finished s1 e1 e2 select_criterion_props(1,2) [of "build_model s1"]
      show ?thesis by (simp add: startup_def build_model_props build_optimizer_def)
    qed
  qed
  then show "args (state_of (startup en cfg)) =
     (if criterion_type cfg = ''classification''
      then cfg\<lparr>num_spkr := IntVal (int (ds_len en))\<rparr> else cfg)"
    "counter (state_of (startup en cfg)) = 0"
    "list_all is_startup_event (events (state_of (startup en cfg)))"
    by simp_all
qed


lemma startup_crit_spkrs:
  assumes "criterion cfg \<in> {''cosface'', ''psge2e'', ''prototypical''}"
  shows "crit_spkrs (events (state_of (startup en cfg))) =
     (if criterion_type cfg = ''classification'' then [IntVal (int (ds_len en))]
      else if criterion_type cfg = ''metriclearning'' \<and> num_spkr cfg \<noteq> Absent
      then [num_spkr cfg] else [])"
proof (cases "select_dataset en (init_state cfg)")
  case (Raised err st)
  from select_dataset_Raised [OF this] Raised show ?thesis
    by (simp add: startup_def init_state_def)
next
  case (Finished s1)
  from select_dataset_Finished [OF this]
  have s1: "crit_spkrs (events s1) = []" "criterion (args s1) = criterion cfg"
    "num_spkr (args s1) = (if criterion_type cfg = ''classification''
        then IntVal (int (ds_len en)) else num_spkr cfg)"
    "criterion_type cfg = ''classification'' \<or> criterion_type cfg = ''metriclearning''"
    by (auto split: if_splits)
  obtain e1 where e1: "events (build_model s1) = events s1 @ e1" "crit_spkrs e1 = []"
    using build_model_props(4) by blast
  obtain e2 where e2: "events (state_of (select_criterion (build_model s1))) =
      events (build_model s1) @ e2"
      "crit_spkrs e2 =
       (if criterion (args (build_model s1)) \<in> {''cosface'', ''psge2e'', ''prototypical''} \<and>
           num_spkr (args (build_model s1)) \<noteq> Absent
        then [num_spkr (args (build_model s1))] else [])"
    using select_criterion_props(3) by blast
  show ?thesis
  proof (cases "select_criterion (build_model s1)")
    case r: (Raised err st)
    with Finished s1 e1 e2 assms show ?thesis
      by (auto simp: startup_def build_model_props)
  next
    case f: (Finished s2)
    with Finished s1 e1 e2 assms show ?thesis
      by (auto simp: startup_def build_optimizer_def build_model_props)
  qed
qed

lemma startup_invalid_criterion:
  assumes "criterion cfg \<notin> {''cosface'', ''psge2e'', ''prototypical''}"
  shows "\<exists>msg st. startup en cfg = Raised (ValueError msg) st"
proof (cases "select_dataset en (init_state cfg)")
  case (Raised err st)
  from select_dataset_Raised [OF this] Raised show ?thesis
    by (simp add: startup_def)
next
  case (Finished s1)
  from select_dataset_Finished [OF this] have "criterion (args s1) = criterion cfg"
    by (auto split: if_splits)
  with assms have "criterion (args (build_model s1)) \<notin> {''cosface'', ''psge2e'', ''prototypical''}"
    by (simp add: build_model_props)
  from select_criterion_invalid [OF this] Finished show ?thesis
    by (simp add: startup_def)
qed

lemma startup_absent:
  assumes "criterion cfg \<in> {''cosface'', ''psge2e'', ''prototypical''}"
    and "criterion_type cfg = ''metriclearning''" and "num_spkr cfg = Absent"
  shows "\<exists>st. startup en cfg = Raised (AttributeError ''num_spkr'') st"
proof -
  from assms(2) obtain s1 where s1: "select_dataset en (init_state cfg) = Finished s1"
     "args s1 = cfg"
    by (auto simp: select_dataset_cases)
  with assms have "criterion (args (build_model s1)) \<in> {''cosface'', ''psge2e'', ''prototypical''}"
    "num_spkr (args (build_model s1)) = Absent"
    by (simp_all add: build_model_props)
  from select_criterion_absent [OF this] s1 show ?thesis
    by (simp add: startup_def)
qed

subsection \<open>The whole script\<close>

lemma main_Raised_startup:
  "startup en cfg = Raised err st \<Longrightarrow> main en cfg = Raised err st"
  by (simp add: main_def)

lemma main_shape:
  "\<exists>evs. events (state_of (main en cfg)) = events (state_of (startup en cfg)) @ evs \<and>
         args (state_of (main en cfg)) = args (state_of (startup en cfg)) \<and>
         list_all (\<lambda>ev. \<not> is_startup_event ev) evs \<and>
         (\<not> save_model cfg \<longrightarrow> saved evs = [])"
proof (cases "startup en cfg")
  case (Raised err st)
  then show ?thesis by (simp add: main_def)
next
  case (Finished st)
  from startup_props(1) [of en cfg] Finished have "save_model (args st) = save_model cfg"
    by (simp split: if_splits)
  with run_epochs_shape [of en "[0..<nat (num_epochs (args st))]" st] Finished
  show ?thesis by (simp add: main_def)
qed

lemma main_Finished:
  assumes "main en cfg = Finished st'"
  obtains st where "startup en cfg = Finished st"
    and "run_epochs en [0..<nat (num_epochs cfg)] st = Finished st'"
    and "save_model (args st) = save_model cfg"
    and "criterion_type (args st) = criterion_type cfg"
proof (cases "startup en cfg")
  case (Raised err st)
  with assms show ?thesis by (simp add: main_def)
next
  case (Finished st)
  from startup_props(1) [of en cfg] Finished
  have a: "save_model (args st) = save_model cfg" "num_epochs (args st) = num_epochs cfg"
    "criterion_type (args st) = criterion_type cfg"
    by (simp_all split: if_splits)
  with assms Finished that show ?thesis by (simp add: main_def)
qed

subsection \<open>Facts shared by the claims\<close>

lemma startup_steps_ok: "steps_ok (state_of (startup en cfg))"
  using startup_props(2,3) [of en cfg]
    startup_events_silent [of "events (state_of (startup en cfg))"]
  by (simp add: steps_ok_def)

lemma main_steps_ok: "steps_ok (state_of (main en cfg))"
proof (cases "startup en cfg")
  case (Raised err st)
  with startup_steps_ok [of en cfg] show ?thesis by (simp add: main_def)
next
  case (Finished st)
  with startup_steps_ok [of en cfg] have "steps_ok st" by simp
  from run_epochs_steps_ok [OF this] Finished show ?thesis by (simp add: main_def)
qed

lemma startup_saved: "saved (events (state_of (startup en cfg))) = []"
  using startup_props(3) [of en cfg]
    startup_events_silent [of "events (state_of (startup en cfg))"]
  by simp

lemma base_run_finishes:
  "main small_env base_cfg = Finished (state_of (main small_env base_cfg))"
  by code_simp

lemma small_env_total: "total_batches small_env [0..<2] = 2"
  by code_simp

lemma upt_two: "[0..<2] = [0, Suc 0]"
  by code_simp

subsection \<open>The accuracy by target shape\<close>


lemma accuracy_labels_bound:
  assumes "target b = Labels ts" and "accuracy b = Inr a"
  shows "0 \<le> a \<and> a \<le> of_nat (length ts)"
proof -
  let ?c = "length (filter (\<lambda>(p, q). p = q) (List.product (preds b) ts))"
  from assms have n: "length (preds b) \<noteq> 0"
    and a: "a = of_nat ?c / of_nat (length (preds b))"
    by (auto simp: accuracy_def count_eq_def split: if_splits)
  have "?c \<le> length (List.product (preds b) ts)" by (rule length_filter_le)
  then have "?c \<le> length ts * length (preds b)" by (simp add: mult.commute)
  then have "(of_nat ?c :: rat) \<le> of_nat (length ts * length (preds b))"
    by (simp only: of_nat_le_iff)
  then have "(of_nat ?c :: rat) \<le> of_nat (length ts) * of_nat (length (preds b))"
    by simp
  with n a show ?thesis by (simp add: divide_le_eq)
qed

text \<open>
  The bound of \<open>accuracy_labels_bound\<close> is reached: when a target of shape \<open>(B,)\<close>
  carries the same label twice, the broadcast counts a prediction once per occurrence.
\<close>

lemma accuracy_duplicate_labels: "accuracy hit_batch = Inr 2"
  by code_simp

subsection \<open>Outside classification mode the loss is never bound\<close>

lemma train_batch_unbound:
  assumes "loss st = None" and "criterion_type (args st) \<noteq> ''classification''"
  shows "\<exists>st'. train_batch b st = Raised (NameError ''loss'') st' \<and> loss st' = None \<and>
           counter st' = counter st"
  using assms by (simp add: train_batch_def update_weights_def Let_def)

lemma run_batches_unbound:
  assumes "loss st = None" and "criterion_type (args st) \<noteq> ''classification''"
  shows "run_batches bs st =
           (if bs = [] then Finished st else Raised (NameError ''loss'') (state_of (run_batches bs st))) \<and>
         loss (state_of (run_batches bs st)) = None \<and>
         counter (state_of (run_batches bs st)) = counter st"
proof (cases bs)
  case Nil
  with assms show ?thesis by simp
next
  case (Cons b bs')
  from train_batch_unbound [OF assms, of b] Cons show ?thesis by auto
qed

lemma train_epoch_unbound:
  assumes "loss st = None" and "criterion_type (args st) \<noteq> ''classification''"
  shows "(dl en e \<noteq> [] \<longrightarrow>
            train_epoch en e st = Raised (NameError ''loss'') (state_of (train_epoch en e st))) \<and>
         (dl en e = [] \<longrightarrow> train_epoch en e st = Finished (state_of (train_epoch en e st))) \<and>
         loss (state_of (train_epoch en e st)) = None \<and>
         counter (state_of (train_epoch en e st)) = counter st"
proof -
  let ?s0 = "emit (PrintEpoch (e + 1)) st"
  from assms have "loss ?s0 = None" "criterion_type (args ?s0) \<noteq> ''classification''"
    by simp_all
  from run_batches_unbound [OF this, of "dl en e"] show ?thesis
    by (cases "dl en e = []")
       (auto simp: train_epoch_def save_checkpoint_def emit_def Let_def split: outcome.splits)
qed

lemma run_epochs_unbound:
  assumes "loss st = None" and "criterion_type (args st) \<noteq> ''classification''"
  shows "((\<exists>e \<in> set es. dl en e \<noteq> []) \<longrightarrow>
            run_epochs en es st = Raised (NameError ''loss'') (state_of (run_epochs en es st))) \<and>
         loss (state_of (run_epochs en es st)) = None \<and>
         counter (state_of (run_epochs en es st)) = counter st"
  using assms
proof (induction es arbitrary: st)
  case Nil
  then show ?case by simp
next
  case (Cons e es)
  note ep = train_epoch_unbound [OF Cons.prems, of en e]
  show ?case
  proof (cases "train_epoch en e st")
    case (Raised err st')
    with ep show ?thesis by (cases "dl en e = []") auto
  next
    case (Finished st')
    with ep have e0: "dl en e = []" and l: "loss st' = None" and c: "counter st' = counter st"
      by (cases "dl en e = []"; simp)+
    from train_epoch_shape [of en e st] Finished Cons.prems(2)
    have "criterion_type (args st') \<noteq> ''classification''" by auto
    from Cons.IH [OF l this] Finished e0 c show ?thesis by simp
  qed
qed

lemma startup_loss: "loss (state_of (startup en cfg)) = None"
  by (simp add: startup_def select_dataset_def select_criterion_def build_model_def
        build_optimizer_def init_state_def Let_def emit_def split: option.splits)

text \<open>
  Outside classification mode no batch ever completes: the first batch of the first
  non-empty epoch raises \<^verbatim>\<open>NameError\<close>, the counter stays 0 and no loss is ever logged.
\<close>

lemma unbound_loss_stops_first_batch:
  assumes "criterion_type cfg \<noteq> ''classification''"
  shows "counter (state_of (main en cfg)) = 0"
    and "loss (state_of (main en cfg)) = None"
    and "startup en cfg = Finished st \<Longrightarrow> \<exists>e \<in> set [0..<nat (num_epochs cfg)]. dl en e \<noteq> [] \<Longrightarrow>
           \<exists>st'. main en cfg = Raised (NameError ''loss'') st'"
proof -
  have both: "counter (state_of (main en cfg)) = 0 \<and> loss (state_of (main en cfg)) = None"
  proof (cases "startup en cfg")
    case (Raised err s0)
    with startup_props(2) [of en cfg] startup_loss [of en cfg]
    show ?thesis by (simp add: main_def)
  next
    case (Finished s0)
    with startup_props(1,2) [of en cfg] startup_loss [of en cfg] assms
    have s0: "loss s0 = None" "criterion_type (args s0) \<noteq> ''classification''" "counter s0 = 0"
      by simp_all
    from run_epochs_unbound [OF s0(1,2), of "[0..<nat (num_epochs (args s0))]" en] s0(3) Finished
    show ?thesis by (simp add: main_def)
  qed
  from both show "counter (state_of (main en cfg)) = 0" by simp
  from both show "loss (state_of (main en cfg)) = None" by simp
next
  assume fin: "startup en cfg = Finished st"
    and ne: "\<exists>e \<in> set [0..<nat (num_epochs cfg)]. dl en e \<noteq> []"
  from fin startup_props(1) [of en cfg] startup_loss [of en cfg] assms
  have s0: "loss st = None" "criterion_type (args st) \<noteq> ''classification''"
    and n: "num_epochs (args st) = num_epochs cfg"
    by simp_all
  from run_epochs_unbound [OF s0, of "[0..<nat (num_epochs cfg)]" en] ne fin n
  show "\<exists>st'. main en cfg = Raised (NameError ''loss'') st'"
    by (auto simp: main_def)
qed

subsection \<open>The logged accuracy\<close>

lemma acc_values_simps [simp]:
  "acc_values [] = []"
  "acc_values (ev # evs) = acc_logged ev @ acc_values evs"
  "acc_values (xs @ ys) = acc_values xs @ acc_values ys"
  by (simp_all add: acc_values_def)









subsection \<open>A classification run over well-formed batches finishes\<close>






subsection \<open>The skeleton of a run\<close>

lemma marks_simps [simp]:
  "marks [] = []"
  "marks (ev # evs) = mark_of ev @ marks evs"
  "marks (xs @ ys) = marks xs @ marks ys"
  by (simp_all add: marks_def)

lemma startup_events_no_marks:
  "list_all is_startup_event evs \<Longrightarrow> marks evs = []"
proof (induction evs)
  case Nil
  then show ?case by simp
next
  case (Cons ev evs)
  then show ?case by (cases ev) simp_all
qed

lemma upt_add_Suc: "[k..<k + Suc j] = [k..<k + j] @ [k + j]"
  by simp

lemma upt_shift_Cons: "k # [Suc k..<Suc (k + j)] = [k..<Suc (k + j)]"
  by (simp add: upt_conv_Cons)

lemma train_batch_marks:
  "train_batch b st = Finished st' \<Longrightarrow>
     marks (events st') = marks (events st) @ [BatchDone (counter st)] \<and>
     counter st' = counter st + 1"
  "train_batch b st = Raised err st' \<Longrightarrow>
     marks (events st') = marks (events st) \<and> counter st' = counter st"
proof -
  assume fin: "train_batch b st = Finished st'"
  show "marks (events st') = marks (events st) @ [BatchDone (counter st)] \<and>
     counter st' = counter st + 1"
  proof (cases "criterion_type (args st) = ''classification''")
    case True
    from train_batch_Finished_cls [OF fin True] show ?thesis
      by (simp add: batch_trace_def)
  next
    case False
    from train_batch_Finished_other [OF fin False] show ?thesis by auto
  qed
next
  assume r: "train_batch b st = Raised err st'"
  show "marks (events st') = marks (events st) \<and> counter st' = counter st"
  proof (cases "criterion_type (args st) = ''classification''")
    case True
    from train_batch_Raised_cls [OF r True] show ?thesis by simp
  next
    case False
    from train_batch_Raised_other [OF r False] show ?thesis by simp
  qed
qed

lemma run_batches_marks_Finished:
  "run_batches bs st = Finished st' \<Longrightarrow>
     marks (events st') = marks (events st) @ map BatchDone [counter st..<counter st + length bs]"
proof (induction bs arbitrary: st)
  case Nil
  then show ?case by simp
next
  case (Cons b bs)
  from Cons.prems obtain s1 where s1: "train_batch b st = Finished s1"
      and rest: "run_batches bs s1 = Finished st'"
    by (auto split: outcome.splits)
  from train_batch_marks(1) [OF s1]
  have m1: "marks (events s1) = marks (events st) @ [BatchDone (counter st)]"
    and c1: "counter s1 = Suc (counter st)" by simp_all
  from Cons.IH [OF rest] m1 c1
  have "marks (events st') = marks (events st) @
          map BatchDone (counter st # [Suc (counter st)..<Suc (counter st + length bs)])"
    by simp
  then show ?case by (simp only: upt_shift_Cons length_Cons add_Suc_right)
qed

lemma run_batches_marks_Raised:
  "run_batches bs st = Raised err st' \<Longrightarrow>
     \<exists>j < length bs. marks (events st') =
        marks (events st) @ map BatchDone [counter st..<counter st + j]"
proof (induction bs arbitrary: st)
  case Nil
  then show ?case by simp
next
  case (Cons b bs)
  show ?case
  proof (cases "train_batch b st")
    case (Raised err1 s1)
    with Cons.prems have "s1 = st'" by simp
    with train_batch_marks(2) [OF Raised] have "marks (events st') = marks (events st)" by simp
    then have "marks (events st') = marks (events st) @ map BatchDone [counter st..<counter st + 0]"
      by simp
    then show ?thesis by (intro exI [of _ 0]) simp
  next
    case (Finished s1)
    with Cons.prems have rest: "run_batches bs s1 = Raised err st'" by simp
    from train_batch_marks(1) [OF Finished]
    have m1: "marks (events s1) = marks (events st) @ [BatchDone (counter st)]"
      and c1: "counter s1 = Suc (counter st)" by simp_all
    from Cons.IH [OF rest] obtain j where j: "j < length bs"
      and mj: "marks (events st') = marks (events s1) @ map BatchDone [counter s1..<counter s1 + j]"
      by blast
    from mj m1 c1 have "marks (events st') = marks (events st) @
          map BatchDone (counter st # [Suc (counter st)..<Suc (counter st + j)])"
      by simp
    then have "marks (events st') = marks (events st) @
          map BatchDone [counter st..<counter st + Suc j]"
      by (simp only: upt_shift_Cons add_Suc_right)
    with j show ?thesis by (intro exI [of _ "Suc j"]) simp
  qed
qed

lemma checkpoint_trace_marks:
  "marks (checkpoint_trace sv e) =
     (if sv then map (\<lambda>(c, p). Saved c p) (checkpoint_files e) else [])"
  by (simp add: checkpoint_trace_def checkpoint_files_def)

lemma train_epoch_marks_Finished:
  assumes "train_epoch en e st = Finished st'"
  shows "marks (events st') = marks (events st) @ epochs_marks en (save_model (args st)) (counter st) [e]"
proof -
  let ?s0 = "emit (PrintEpoch (e + 1)) st"
  from assms obtain s1 where s1: "run_batches (dl en e) ?s0 = Finished s1"
      and st': "st' = save_checkpoint e s1"
    by (auto simp: train_epoch_def split: outcome.splits)
  from run_batches_shape [of "dl en e" ?s0] s1 have a: "args s1 = args st" by auto
  from run_batches_marks_Finished [OF s1] st' a show ?thesis
    by (simp add: checkpoint_trace_marks)
qed

lemma train_epoch_marks_Raised:
  assumes "train_epoch en e st = Raised err st'"
  shows "\<exists>j < length (dl en e). marks (events st') =
           marks (events st) @ EpochStart (e + 1) # map BatchDone [counter st..<counter st + j]"
proof -
  let ?s0 = "emit (PrintEpoch (e + 1)) st"
  from assms have r: "run_batches (dl en e) ?s0 = Raised err st'"
    by (auto simp: train_epoch_def split: outcome.splits)
  from run_batches_marks_Raised [OF r] show ?thesis by simp
qed

lemma epochs_marks_append:
  "epochs_marks en sv k (es @ fs) =
     epochs_marks en sv k es @ epochs_marks en sv (k + total_batches en es) fs"
  by (induction es arbitrary: k) (simp_all add: total_batches_def add.assoc)

lemma run_epochs_marks_Finished:
  "run_epochs en es st = Finished st' \<Longrightarrow>
     marks (events st') = marks (events st) @ epochs_marks en (save_model (args st)) (counter st) es"
proof (induction es arbitrary: st)
  case Nil
  then show ?case by simp
next
  case (Cons e es)
  from Cons.prems obtain s1 where s1: "train_epoch en e st = Finished s1"
      and rest: "run_epochs en es s1 = Finished st'"
    by (auto split: outcome.splits)
  from train_epoch_shape [of en e st] s1 have a: "args s1 = args st" by auto
  from train_epoch_Finished(2) [OF s1] have c: "counter s1 = counter st + length (dl en e)" .
  from train_epoch_marks_Finished [OF s1] Cons.IH [OF rest] a c show ?case by simp
qed

lemma run_epochs_marks_Raised:
  "run_epochs en es st = Raised err st' \<Longrightarrow>
     \<exists>m j. m < length es \<and> j < length (dl en (es ! m)) \<and>
       marks (events st') =
         marks (events st) @ epochs_marks en (save_model (args st)) (counter st) (take m es) @
         EpochStart (es ! m + 1) #
           map BatchDone [counter st + total_batches en (take m es)..<
                          counter st + total_batches en (take m es) + j]"
proof (induction es arbitrary: st)
  case Nil
  then show ?case by simp
next
  case (Cons e es)
  show ?case
  proof (cases "train_epoch en e st")
    case (Raised err1 s1)
    with Cons.prems have "train_epoch en e st = Raised err st'" by simp
    from train_epoch_marks_Raised [OF this] obtain j where "j < length (dl en e)"
      "marks (events st') =
           marks (events st) @ EpochStart (e + 1) # map BatchDone [counter st..<counter st + j]"
      by blast
    then show ?thesis
      by (intro exI [of _ 0] exI [of _ j]) (simp add: total_batches_def)
  next
    case (Finished s1)
    with Cons.prems have rest: "run_epochs en es s1 = Raised err st'" by simp
    from train_epoch_shape [of en e st] Finished have a: "args s1 = args st" by auto
    from train_epoch_Finished(2) [OF Finished]
    have c: "counter s1 = counter st + length (dl en e)" .
    from Cons.IH [OF rest] obtain m j where m: "m < length es"
      and j: "j < length (dl en (es ! m))"
      and mk: "marks (events st') =
         marks (events s1) @ epochs_marks en (save_model (args s1)) (counter s1) (take m es) @
         EpochStart (es ! m + 1) #
           map BatchDone [counter s1 + total_batches en (take m es)..<
                          counter s1 + total_batches en (take m es) + j]"
      by blast
    from train_epoch_marks_Finished [OF Finished] mk a c
    have "marks (events st') =
         marks (events st) @ epochs_marks en (save_model (args st)) (counter st) (take (Suc m) (e # es)) @
         EpochStart ((e # es) ! Suc m + 1) #
           map BatchDone [counter st + total_batches en (take (Suc m) (e # es))..<
                          counter st + total_batches en (take (Suc m) (e # es)) + j]"
      by (simp add: total_batches_def add.assoc)
    with m j show ?thesis
      by (intro exI [of _ "Suc m"] exI [of _ j]) simp
  qed
qed

subsection \<open>The items of an epoch\<close>

lemma batches_moved_simps [simp]:
  "batches_moved [] = []"
  "batches_moved (ev # evs) = moved_of ev @ batches_moved evs"
  "batches_moved (xs @ ys) = batches_moved xs @ batches_moved ys"
  by (simp_all add: batches_moved_def)








lemma base_skeleton:
  "epochs_marks shuffled_env True 0 [0..<2] =
     [EpochStart 1, BatchDone 0, BatchDone 1,
      Saved Model ''models/model_01.pt'', Saved Criterion ''models/crit_01.pt'',
      Saved Optimizer ''models/optim_01.pt'',
      EpochStart 2, BatchDone 2, BatchDone 3,
      Saved Model ''models/model_02.pt'', Saved Criterion ''models/crit_02.pt'',
      Saved Optimizer ''models/optim_02.pt'']"
  by code_simp

lemma shuffled_run_finishes:
  "main shuffled_env base_cfg = Finished (state_of (main shuffled_env base_cfg))"
  by code_simp



lemma ml_shuffled:
  "main shuffled_env ml_cfg = Raised (NameError ''loss'') (state_of (main shuffled_env ml_cfg))"
  "saved (events (state_of (main shuffled_env ml_cfg))) = []"
  "save_model ml_cfg"
  by code_simp+

section \<open>The claims\<close>

text \<open>
  C1. In metric-learning mode the branch of the loop body is \<^verbatim>\<open>pass\<close>: the criterion is
  not called and \<^verbatim>\<open>loss\<close> is never bound. On a run with one batch per epoch the script
  reaches \<^verbatim>\<open>optimizer.zero_grad()\<close> of the first batch and then raises \<^verbatim>\<open>NameError\<close> at
  \<^verbatim>\<open>loss.backward()\<close>: no loss was computed, nothing was logged, the counter is still 0.
\<close>

theorem metriclearning_loss_unbound:
  "main small_env ml_cfg = Raised (NameError ''loss'') (state_of (main small_env ml_cfg)) \<and>
   events (state_of (main small_env ml_cfg)) =
     [ConstructDataset (MetricLearningVCDS ''train.csv'' 400 160 200 2),
      ConstructLoader 2 True 0, ConstructTransform, ConstructModel, LoadState Model ''ckpt.pt'',
      OpenLog ''runs'', ConstructCriterion (Prototypical 8 (IntVal 5)),
      ConstructOptimizer (1 / 1000) (1 / 1000), PrintEpoch 1,
      ToDeviceX [0], FeatureExtract, ToDeviceTarget, Forward, ZeroGrad] \<and>
   loss (state_of (main small_env ml_cfg)) = None \<and>
   counter (state_of (main small_env ml_cfg)) = 0"
  by code_simp

text \<open>
  C2 as stated fails: in classification mode the script assigns \<^verbatim>\<open>args.num_spkr\<close>. Parsed
  as 5, it is 3 (the length of the dataset) when the run ends.
\<close>

theorem config_modified_counterexample:
  "num_spkr base_cfg = IntVal 5 \<and>
   num_spkr (args (state_of (main small_env base_cfg))) = IntVal 3"
  by code_simp

text \<open>
  C2 (as amended). The configuration is read-only except for one assignment: in
  classification mode \<^verbatim>\<open>args.num_spkr\<close> is overwritten with \<^verbatim>\<open>len(ds)\<close>. Whatever the
  outcome of the run, the configuration the script ends with is the parsed one with at
  most that field changed, and in every other mode it is the parsed one.
\<close>

theorem config_only_num_spkr_assigned:
  "args (state_of (main en cfg)) =
     (if criterion_type cfg = ''classification''
      then cfg\<lparr>num_spkr := IntVal (int (ds_len en))\<rparr> else cfg)"
  using main_shape [of en cfg] startup_props(1) [of en cfg] by auto

theorem config_only_num_spkr_assigned_witness:
  "args (state_of (main small_env ml_cfg)) = ml_cfg \<and>
   args (state_of (main small_env base_cfg)) = base_cfg\<lparr>num_spkr := IntVal 3\<rparr>"
  using config_only_num_spkr_assigned [of small_env ml_cfg]
    config_only_num_spkr_assigned [of small_env base_cfg]
  by (simp add: ml_cfg_def base_cfg_def small_env_def)



text \<open>
  C4. A \<^verbatim>\<open>criterion_type\<close> that is neither \<^verbatim>\<open>classification\<close> nor \<^verbatim>\<open>metriclearning\<close>
  makes the script raise \<^verbatim>\<open>ValueError\<close> in the state it started in: no dataset has been
  constructed, no event of any kind has happened.
\<close>

theorem invalid_criterion_type_raises:
  assumes "criterion_type cfg \<noteq> ''classification''"
    and "criterion_type cfg \<noteq> ''metriclearning''"
  shows "main en cfg =
           Raised (ValueError ''args.criterion-type: no valid criterion type'') (init_state cfg) \<and>
         events (init_state cfg) = []"
  using startup_invalid_type [OF assms, of en]
  by (simp add: main_def init_state_def)

theorem invalid_criterion_type_raises_witness:
  "criterion_type bad_type_cfg \<noteq> ''classification'' \<and>
   criterion_type bad_type_cfg \<noteq> ''metriclearning'' \<and>
   main small_env bad_type_cfg =
     Raised (ValueError ''args.criterion-type: no valid criterion type'') (init_state bad_type_cfg) \<and>
   events (init_state bad_type_cfg) = []"
proof -
  have a: "criterion_type bad_type_cfg \<noteq> ''classification''"
    and b: "criterion_type bad_type_cfg \<noteq> ''metriclearning''"
    by (simp_all add: bad_type_cfg_def base_cfg_def)
  from invalid_criterion_type_raises [OF a b, of small_env] a b show ?thesis by simp
qed

text \<open>
  C5. A \<^verbatim>\<open>criterion\<close> that is none of \<^verbatim>\<open>cosface\<close>, \<^verbatim>\<open>psge2e\<close>, \<^verbatim>\<open>prototypical\<close> makes the
  script raise \<^verbatim>\<open>ValueError\<close> during startup: the step counter is still 0, only startup
  events have happened and none of them is a forward pass, a loss computation, a backward
  pass or an optimizer step.
\<close>

theorem invalid_criterion_raises:
  assumes "criterion cfg \<notin> {''cosface'', ''psge2e'', ''prototypical''}"
  shows "\<exists>msg st. main en cfg = Raised (ValueError msg) st \<and> counter st = 0 \<and>
           list_all is_startup_event (events st) \<and>
           list_all (\<lambda>ev. \<not> is_training_step ev) (events st)"
proof -
  from startup_invalid_criterion [OF assms, of en]
  obtain msg st where r: "startup en cfg = Raised (ValueError msg) st" by blast
  then have m: "main en cfg = Raised (ValueError msg) st" by (rule main_Raised_startup)
  from r startup_props(2,3) [of en cfg]
  have c: "counter st = 0" and ev: "list_all is_startup_event (events st)" by simp_all
  from startup_events_silent [OF ev, of "''loss''"]
  have "list_all (\<lambda>ev. \<not> is_training_step ev) (events st)" by simp
  with m c ev show ?thesis by blast
qed

theorem invalid_criterion_raises_witness:
  "criterion bad_crit_cfg \<notin> {''cosface'', ''psge2e'', ''prototypical''} \<and>
   (\<exists>msg st. main small_env bad_crit_cfg = Raised (ValueError msg) st \<and> counter st = 0 \<and>
      list_all is_startup_event (events st) \<and>
      list_all (\<lambda>ev. \<not> is_training_step ev) (events st))"
proof -
  have a: "criterion bad_crit_cfg \<notin> {''cosface'', ''psge2e'', ''prototypical''}"
    by (simp add: bad_crit_cfg_def base_cfg_def)
  from invalid_criterion_raises [OF a, of small_env] a show ?thesis by blast
qed

text \<open>
  C6. The counter starts at 0 and grows by one per completed batch, across epochs. However
  the run ends, the steps under which the loss was logged are exactly 0, 1, ... up to the
  counter (so the k-th batch logs under step k-1), the same holds for the accuracy in
  classification mode, and a run that finishes ends with the counter equal to the total
  number of batches the loader yielded over all epochs.
\<close>

theorem counter_counts_batches:
  "steps_of ''loss'' (events (state_of (main en cfg))) = [0..<counter (state_of (main en cfg))] \<and>
   (criterion_type cfg = ''classification'' \<longrightarrow>
      steps_of ''acc'' (events (state_of (main en cfg))) = [0..<counter (state_of (main en cfg))]) \<and>
   (\<forall>st. main en cfg = Finished st \<longrightarrow>
      counter st = total_batches en [0..<nat (num_epochs cfg)])"
proof (intro conjI allI impI)
  show "steps_of ''loss'' (events (state_of (main en cfg))) = [0..<counter (state_of (main en cfg))]"
    using main_steps_ok [of en cfg] by (simp add: steps_ok_def)
next
  assume cls: "criterion_type cfg = ''classification''"
  from main_shape [of en cfg] startup_props(1) [of en cfg] cls
  have "criterion_type (args (state_of (main en cfg))) = ''classification''" by auto
  with main_steps_ok [of en cfg]
  show "steps_of ''acc'' (events (state_of (main en cfg))) = [0..<counter (state_of (main en cfg))]"
    by (simp add: steps_ok_def)
next
  fix st'
  assume fin: "main en cfg = Finished st'"
  from fin obtain st where st: "startup en cfg = Finished st"
      and run: "run_epochs en [0..<nat (num_epochs cfg)] st = Finished st'"
    by (rule main_Finished)
  from st startup_props(2) [of en cfg] have "counter st = 0" by simp
  with run_epochs_Finished [OF run]
  show "counter st' = total_batches en [0..<nat (num_epochs cfg)]" by simp
qed

theorem counter_counts_batches_witness:
  "criterion_type base_cfg = ''classification'' \<and>
   main small_env base_cfg = Finished (state_of (main small_env base_cfg)) \<and>
   counter (state_of (main small_env base_cfg)) = 2 \<and>
   steps_of ''loss'' (events (state_of (main small_env base_cfg))) = [0, 1] \<and>
   steps_of ''acc'' (events (state_of (main small_env base_cfg))) = [0, 1]"
proof -
  have cls: "criterion_type base_cfg = ''classification''"
    by (simp add: base_cfg_def)
  have n: "num_epochs base_cfg = 2" by (simp add: base_cfg_def)
  note inst = counter_counts_batches [of small_env base_cfg]
  from inst base_run_finishes
  have "counter (state_of (main small_env base_cfg)) =
          total_batches small_env [0..<nat (num_epochs base_cfg)]"
    by blast
  with n have c: "counter (state_of (main small_env base_cfg)) = 2"
    by (simp add: small_env_total)
  from inst c have l: "steps_of ''loss'' (events (state_of (main small_env base_cfg))) = [0, 1]"
    by (simp add: upt_two)
  from inst cls c have a: "steps_of ''acc'' (events (state_of (main small_env base_cfg))) = [0, 1]"
    by (simp add: upt_two)
  from cls base_run_finishes c l a show ?thesis by blast
qed

text \<open>
  C7 as stated fails in the direction from the flag to the files: with the flag on, a
  metric-learning run raises in its first batch and a run of zero epochs finishes, and
  neither writes a file.
\<close>

theorem flag_on_no_file_counterexample:
  "save_model ml_cfg \<and>
   main shuffled_env ml_cfg = Raised (NameError ''loss'') (state_of (main shuffled_env ml_cfg)) \<and>
   saved (events (state_of (main shuffled_env ml_cfg))) = [] \<and>
   save_model (base_cfg\<lparr>num_epochs := 0\<rparr>) \<and>
   main shuffled_env (base_cfg\<lparr>num_epochs := 0\<rparr>) =
     Finished (state_of (main shuffled_env (base_cfg\<lparr>num_epochs := 0\<rparr>))) \<and>
   saved (events (state_of (main shuffled_env (base_cfg\<lparr>num_epochs := 0\<rparr>)))) = []"
  by code_simp

text \<open>
  C7 (as amended). Without the save-model flag no checkpoint file is written, however
  the run ends. With it, files are written at the end of each completed epoch and nowhere
  else: the skeleton of a finished run is, for each epoch \<open>e\<close> = 1, 2, ... in turn, the
  epoch header, one completed batch per batch of the loader, and then exactly the three
  files \<^verbatim>\<open>models/model_<e>.pt\<close>, \<^verbatim>\<open>models/crit_<e>.pt\<close>, \<^verbatim>\<open>models/optim_<e>.pt\<close> (the
  epoch number written with at least two digits) before the next header. A run that
  raises has raised at startup, or has the skeleton of its completed epochs followed by
  the header and the completed batches of the epoch it raised in, which writes no file.
\<close>

theorem checkpoints_at_epoch_end:
  "(\<not> save_model cfg \<longrightarrow> saved (events (state_of (main en cfg))) = []) \<and>
   (\<forall>st. main en cfg = Finished st \<longrightarrow>
      marks (events st) = epochs_marks en (save_model cfg) 0 [0..<nat (num_epochs cfg)]) \<and>
   (\<forall>st. main en cfg = Finished st \<longrightarrow>
      saved (events st) =
        (if save_model cfg then concat (map checkpoint_files [0..<nat (num_epochs cfg)])
         else [])) \<and>
   (\<forall>err st. main en cfg = Raised err st \<longrightarrow>
      marks (events st) = [] \<or>
      (\<exists>m j. m < nat (num_epochs cfg) \<and> j < length (dl en m) \<and>
         marks (events st) =
           epochs_marks en (save_model cfg) 0 [0..<m] @
           EpochStart (m + 1) #
             map BatchDone [total_batches en [0..<m]..<total_batches en [0..<m] + j]))"
proof (intro conjI allI impI)
  assume off: "\<not> save_model cfg"
  from main_shape [of en cfg] off startup_saved [of en cfg]
  show "saved (events (state_of (main en cfg))) = []" by auto
next
  fix st'
  assume fin: "main en cfg = Finished st'"
  from fin obtain st where st: "startup en cfg = Finished st"
      and run: "run_epochs en [0..<nat (num_epochs cfg)] st = Finished st'"
      and sv: "save_model (args st) = save_model cfg"
    by (rule main_Finished)
  from st startup_props(2,3) [of en cfg]
  have c: "counter st = 0" and ev: "list_all is_startup_event (events st)" by simp_all
  from run_epochs_marks_Finished [OF run] startup_events_no_marks [OF ev] c sv
  show "marks (events st') = epochs_marks en (save_model cfg) 0 [0..<nat (num_epochs cfg)]"
    by simp
next
  fix st'
  assume fin: "main en cfg = Finished st'"
  from fin obtain st where st: "startup en cfg = Finished st"
      and run: "run_epochs en [0..<nat (num_epochs cfg)] st = Finished st'"
      and sv: "save_model (args st) = save_model cfg"
    by (rule main_Finished)
  from st startup_saved [of en cfg] have "saved (events st) = []" by simp
  with run_epochs_Finished [OF run] sv
  show "saved (events st') =
        (if save_model cfg then concat (map checkpoint_files [0..<nat (num_epochs cfg)])
         else [])" by simp
next
  fix err st'
  assume r: "main en cfg = Raised err st'"
  show "marks (events st') = [] \<or>
      (\<exists>m j. m < nat (num_epochs cfg) \<and> j < length (dl en m) \<and>
         marks (events st') =
           epochs_marks en (save_model cfg) 0 [0..<m] @
           EpochStart (m + 1) #
             map BatchDone [total_batches en [0..<m]..<total_batches en [0..<m] + j])"
  proof (cases "startup en cfg")
    case (Raised err0 s0)
    with r have "s0 = st'" by (simp add: main_def)
    with Raised startup_props(3) [of en cfg] have "list_all is_startup_event (events st')"
      by simp
    from startup_events_no_marks [OF this] show ?thesis by simp
  next
    case (Finished s0)
    from startup_props(1,2,3) [of en cfg] Finished
    have sv: "save_model (args s0) = save_model cfg"
      and n: "num_epochs (args s0) = num_epochs cfg"
      and c: "counter s0 = 0" and ev: "list_all is_startup_event (events s0)"
      by (simp_all split: if_splits)
    from r Finished n have run: "run_epochs en [0..<nat (num_epochs cfg)] s0 = Raised err st'"
      by (simp add: main_def)
    from run_epochs_marks_Raised [OF run] obtain m j where
      m: "m < nat (num_epochs cfg)" and j: "j < length (dl en ([0..<nat (num_epochs cfg)] ! m))"
      and mk: "marks (events st') =
         marks (events s0) @
         epochs_marks en (save_model (args s0)) (counter s0) (take m [0..<nat (num_epochs cfg)]) @
         EpochStart ([0..<nat (num_epochs cfg)] ! m + 1) #
           map BatchDone
             [counter s0 + total_batches en (take m [0..<nat (num_epochs cfg)])..<
              counter s0 + total_batches en (take m [0..<nat (num_epochs cfg)]) + j]"
      by auto
    from m have nth: "[0..<nat (num_epochs cfg)] ! m = m"
      and tk: "take m [0..<nat (num_epochs cfg)] = [0..<m]"
      by simp_all
    from mk nth tk startup_events_no_marks [OF ev] c sv
    have "marks (events st') =
           epochs_marks en (save_model cfg) 0 [0..<m] @
           EpochStart (m + 1) #
             map BatchDone [total_batches en [0..<m]..<total_batches en [0..<m] + j]"
      by simp
    with m j nth show ?thesis by auto
  qed
qed

theorem checkpoints_at_epoch_end_witness:
  "main shuffled_env base_cfg = Finished (state_of (main shuffled_env base_cfg)) \<and>
   marks (events (state_of (main shuffled_env base_cfg))) =
     [EpochStart 1, BatchDone 0, BatchDone 1,
      Saved Model ''models/model_01.pt'', Saved Criterion ''models/crit_01.pt'',
      Saved Optimizer ''models/optim_01.pt'',
      EpochStart 2, BatchDone 2, BatchDone 3,
      Saved Model ''models/model_02.pt'', Saved Criterion ''models/crit_02.pt'',
      Saved Optimizer ''models/optim_02.pt''] \<and>
   \<not> save_model (base_cfg\<lparr>save_model := False\<rparr>) \<and>
   saved (events (state_of (main shuffled_env (base_cfg\<lparr>save_model := False\<rparr>)))) = [] \<and>
   main shuffled_env ml_cfg = Raised (NameError ''loss'') (state_of (main shuffled_env ml_cfg)) \<and>
   (marks (events (state_of (main shuffled_env ml_cfg))) = [] \<or>
    (\<exists>m j. m < nat (num_epochs ml_cfg) \<and> j < length (dl shuffled_env m) \<and>
       marks (events (state_of (main shuffled_env ml_cfg))) =
         epochs_marks shuffled_env (save_model ml_cfg) 0 [0..<m] @
         EpochStart (m + 1) #
           map BatchDone [total_batches shuffled_env [0..<m]..<
                          total_batches shuffled_env [0..<m] + j]))"
proof -
  have on: "save_model base_cfg = True" and n: "nat (num_epochs base_cfg) = 2"
    by (simp_all add: base_cfg_def)
  from checkpoints_at_epoch_end [of base_cfg shuffled_env] shuffled_run_finishes
  have "marks (events (state_of (main shuffled_env base_cfg))) =
          epochs_marks shuffled_env (save_model base_cfg) 0 [0..<nat (num_epochs base_cfg)]"
    by blast
  with on n have sk: "marks (events (state_of (main shuffled_env base_cfg))) =
     [EpochStart 1, BatchDone 0, BatchDone 1,
      Saved Model ''models/model_01.pt'', Saved Criterion ''models/crit_01.pt'',
      Saved Optimizer ''models/optim_01.pt'',
      EpochStart 2, BatchDone 2, BatchDone 3,
      Saved Model ''models/model_02.pt'', Saved Criterion ''models/crit_02.pt'',
      Saved Optimizer ''models/optim_02.pt'']"
    by (simp only: base_skeleton)
  have off: "\<not> save_model (base_cfg\<lparr>save_model := False\<rparr>)" by simp
  from checkpoints_at_epoch_end [of "base_cfg\<lparr>save_model := False\<rparr>" shuffled_env] off
  have none: "saved (events (state_of (main shuffled_env (base_cfg\<lparr>save_model := False\<rparr>)))) = []"
    by blast
  from checkpoints_at_epoch_end [of ml_cfg shuffled_env] ml_shuffled(1)
  have r: "marks (events (state_of (main shuffled_env ml_cfg))) = [] \<or>
    (\<exists>m j. m < nat (num_epochs ml_cfg) \<and> j < length (dl shuffled_env m) \<and>
       marks (events (state_of (main shuffled_env ml_cfg))) =
         epochs_marks shuffled_env (save_model ml_cfg) 0 [0..<m] @
         EpochStart (m + 1) #
           map BatchDone [total_batches shuffled_env [0..<m]..<
                          total_batches shuffled_env [0..<m] + j])"
    by blast
  from shuffled_run_finishes sk off none ml_shuffled(1) r show ?thesis by blast
qed






text \<open>
  C10. With a valid \<^verbatim>\<open>criterion\<close>, the one criterion the script constructs receives as
  speaker count, in classification mode, the length of the dataset whatever the parser
  supplied, and in metric-learning mode the parser's own value; when the parser supplied
  no such attribute, metric-learning mode raises \<^verbatim>\<open>AttributeError\<close> instead of
  constructing a criterion.
\<close>

theorem criterion_speaker_count:
  assumes "criterion cfg \<in> {''cosface'', ''psge2e'', ''prototypical''}"
  shows "crit_spkrs (events (state_of (main en cfg))) =
     (if criterion_type cfg = ''classification'' then [IntVal (int (ds_len en))]
      else if criterion_type cfg = ''metriclearning'' \<and> num_spkr cfg \<noteq> Absent
      then [num_spkr cfg] else []) \<and>
    (criterion_type cfg = ''metriclearning'' \<and> num_spkr cfg = Absent \<longrightarrow>
       (\<exists>st. main en cfg = Raised (AttributeError ''num_spkr'') st))"
proof (intro conjI impI)
  from main_shape [of en cfg] obtain evs where
    ev: "events (state_of (main en cfg)) = events (state_of (startup en cfg)) @ evs"
    and loop: "list_all (\<lambda>ev. \<not> is_startup_event ev) evs"
    by blast
  from loop_events_silent [OF loop] ev
  have "crit_spkrs (events (state_of (main en cfg))) =
          crit_spkrs (events (state_of (startup en cfg)))"
    by simp
  then show "crit_spkrs (events (state_of (main en cfg))) =
     (if criterion_type cfg = ''classification'' then [IntVal (int (ds_len en))]
      else if criterion_type cfg = ''metriclearning'' \<and> num_spkr cfg \<noteq> Absent
      then [num_spkr cfg] else [])"
    by (simp only: startup_crit_spkrs [OF assms])
next
  assume a: "criterion_type cfg = ''metriclearning'' \<and> num_spkr cfg = Absent"
  then have "\<exists>st. startup en cfg = Raised (AttributeError ''num_spkr'') st"
    using startup_absent [OF assms, of en] by blast
  then show "\<exists>st. main en cfg = Raised (AttributeError ''num_spkr'') st"
    by (auto dest: main_Raised_startup)
qed

theorem criterion_speaker_count_witness:
  "criterion base_cfg \<in> {''cosface'', ''psge2e'', ''prototypical''} \<and>
   num_spkr base_cfg = IntVal 5 \<and>
   crit_spkrs (events (state_of (main small_env base_cfg))) = [IntVal 3] \<and>
   criterion ml_cfg \<in> {''cosface'', ''psge2e'', ''prototypical''} \<and>
   crit_spkrs (events (state_of (main small_env ml_cfg))) = [IntVal 5] \<and>
   criterion (ml_cfg\<lparr>num_spkr := Absent\<rparr>) \<in> {''cosface'', ''psge2e'', ''prototypical''} \<and>
   (\<exists>st. main small_env (ml_cfg\<lparr>num_spkr := Absent\<rparr>) = Raised (AttributeError ''num_spkr'') st)"
proof -
  have a: "criterion base_cfg \<in> {''cosface'', ''psge2e'', ''prototypical''}"
    and b: "criterion ml_cfg \<in> {''cosface'', ''psge2e'', ''prototypical''}"
    and c: "criterion (ml_cfg\<lparr>num_spkr := Absent\<rparr>) \<in> {''cosface'', ''psge2e'', ''prototypical''}"
    and n: "num_spkr base_cfg = IntVal 5"
    by (simp_all add: base_cfg_def ml_cfg_def)
  from criterion_speaker_count [OF a, of small_env]
  have r1: "crit_spkrs (events (state_of (main small_env base_cfg))) = [IntVal 3]"
    by (simp add: base_cfg_def small_env_def)
  from criterion_speaker_count [OF b, of small_env]
  have r2: "crit_spkrs (events (state_of (main small_env ml_cfg))) = [IntVal 5]"
    by (simp add: base_cfg_def ml_cfg_def)
  from criterion_speaker_count [OF c, of small_env]
  have r3: "\<exists>st. main small_env (ml_cfg\<lparr>num_spkr := Absent\<rparr>) =
              Raised (AttributeError ''num_spkr'') st"
    by (simp add: base_cfg_def ml_cfg_def)
  from a n r1 b r2 c r3 show ?thesis by blast
qed

end
